theory Spec2Isabelle
  imports Complex_Main "HOL-Library.Sublist"
begin

section \<open>The telemetry-to-control pipeline of main.cpp\<close>

text \<open>
  The development embeds \<^verbatim>\<open>src/main.cpp\<close>: the frame filter \<^verbatim>\<open>hasData\<close>, the
  polynomial helpers \<^verbatim>\<open>polyeval\<close> and \<^verbatim>\<open>polyfit\<close>, the two coordinate transforms and
  the body of the \<^verbatim>\<open>onMessage\<close> callback.

  Conventions of the embedding:
  \<^item> a \<^verbatim>\<open>double\<close> is a \<^typ>\<open>real\<close>. The transforms, the state and the actuation
    formulas are computed in exact real arithmetic: the statements about them are
    algebraic identities. The evaluator \<^verbatim>\<open>polyeval\<close>, where the order of accumulation
    shows only because every step rounds, carries the rounding of binary64 explicitly
    (round to nearest, ties to even, gradual underflow; overflow to infinity and NaN
    are outside the model);
  \<^item> \<^verbatim>\<open>std::string\<close> is \<^typ>\<open>string\<close>, \<^verbatim>\<open>std::vector<double>\<close> and
    \<^verbatim>\<open>Eigen::VectorXd\<close> are \<^typ>\<open>real list\<close>; loop counters are \<^typ>\<open>nat\<close> (the
    \<^verbatim>\<open>int\<close> counters of the source do not overflow on sequences shorter than
    \<open>2\<^sup>3\<^sup>1\<close>);
  \<^item> \<^verbatim>\<open>string::npos\<close> is \<^const>\<open>None\<close>; the one place where \<^verbatim>\<open>size_t\<close> arithmetic can
    wrap around is written out modulo \<open>2\<^sup>6\<^sup>4\<close>;
  \<^item> a failed \<^verbatim>\<open>assert\<close>, an uncaught exception and an unchecked out-of-range read end
    the process; they are the values of the type \<open>crash\<close>.
\<close>

subsection \<open>String searching as std::string does it\<close>

text \<open>\<^verbatim>\<open>s.find(pat)\<close>: the lowest position at which \<open>pat\<close> occurs in \<open>s\<close>.\<close>

fun str_find :: "string \<Rightarrow> string \<Rightarrow> nat option" where
  "str_find [] pat = (if pat = [] then Some 0 else None)"
| "str_find (c # cs) pat =
     (if prefix pat (c # cs) then Some 0 else map_option Suc (str_find cs pat))"

text \<open>\<^verbatim>\<open>s.rfind(pat)\<close>: the highest position at which \<open>pat\<close> occurs in \<open>s\<close>.\<close>

fun str_rfind :: "string \<Rightarrow> string \<Rightarrow> nat option" where
  "str_rfind [] pat = (if pat = [] then Some 0 else None)"
| "str_rfind (c # cs) pat =
     (case str_rfind cs pat of
        Some i \<Rightarrow> Some (Suc i)
      | None \<Rightarrow> if prefix pat (c # cs) then Some 0 else None)"

text \<open>\<^verbatim>\<open>s.find_first_of(chars)\<close>: the lowest position holding one of \<open>chars\<close>.\<close>

fun str_find_first_of :: "string \<Rightarrow> string \<Rightarrow> nat option" where
  "str_find_first_of [] chars = None"
| "str_find_first_of (c # cs) chars =
     (if c \<in> set chars then Some 0 else map_option Suc (str_find_first_of cs chars))"

text \<open>
  \<^verbatim>\<open>s.substr(pos, count)\<close> for \<open>pos \<le> size\<close>: the count is clipped to the rest of the
  string. Both call sites of the source pass a position inside the string (\<open>0\<close>, and
  the index of a character that was found).
\<close>

definition substr :: "string \<Rightarrow> nat \<Rightarrow> nat \<Rightarrow> string" where
  "substr s pos count = take count (drop pos s)"

subsection \<open>hasData\<close>

text \<open>
  The count \<^verbatim>\<open>b2 - b1 + 2\<close> is computed in \<^verbatim>\<open>size_t\<close>: when the last \<^verbatim>\<open>}]\<close> lies before
  the first \<^verbatim>\<open>[\<close> it wraps around.
\<close>

definition size_t_count :: "nat \<Rightarrow> nat \<Rightarrow> nat" where
  "size_t_count b1 b2 = (b2 + 2 ^ 64 - b1 + 2) mod 2 ^ 64"

definition hasData :: "string \<Rightarrow> string" where
  "hasData s =
     (let found_null = str_find s ''null'';
          b1 = str_find_first_of s ''['';
          b2 = str_rfind s ''}]''
      in if found_null \<noteq> None then []
         else (case b1 of
                 None \<Rightarrow> []
               | Some p1 \<Rightarrow>
                  (case b2 of
                     None \<Rightarrow> []
                   | Some p2 \<Rightarrow> substr s p1 (size_t_count p1 p2))))"

subsection \<open>Rounding to double\<close>

text \<open>
  Round to the nearest integer, ties to the even one.
\<close>

definition round_even :: "real \<Rightarrow> int" where
  "round_even r =
     (let f = \<lfloor>r\<rfloor>
      in if r - of_int f < 1 / 2 then f
         else if 1 / 2 < r - of_int f then f + 1
         else if even f then f else f + 1)"

text \<open>
  A binary64 number with exponent \<open>e\<close> is a multiple of \<open>2\<^sup>e\<^sup>-\<^sup>5\<^sup>2\<close>; below the smallest
  normal exponent \<open>-1022\<close> the spacing stays that of the subnormal numbers.
\<close>

definition ulp_exponent :: "real \<Rightarrow> int" where
  "ulp_exponent x = max \<lfloor>log 2 \<bar>x\<bar>\<rfloor> (- 1022) - 52"

text \<open>
  The result of an arithmetic operation on doubles: the exact result, rounded to the
  nearest double.
\<close>

definition round_to_double :: "real \<Rightarrow> real" where
  "round_to_double x =
     (if x = 0 then 0
      else (let q = power_int 2 (ulp_exponent x)
            in q * of_int (round_even (x / q))))"

text \<open>
  \<^verbatim>\<open>pow(x, i)\<close> of the C library, taken as the correctly rounded power. The C standard
  fixes \<open>pow(x, 0) = 1\<close>, \<open>pow(1, i) = 1\<close> and \<open>pow(0, i) = 0\<close> for \<open>i > 0\<close>, and the
  common libraries return the power itself when it is a double, as this definition
  does; elsewhere a library may differ from the correctly rounded power in the last
  place.
\<close>

definition c_pow :: "real \<Rightarrow> nat \<Rightarrow> real" where
  "c_pow x i = round_to_double (x ^ i)"

subsection \<open>polyeval\<close>

text \<open>
  The loop of \<^verbatim>\<open>polyeval\<close>, with its counter \<open>i\<close> and its accumulator: the power, the
  product and the sum of \<^verbatim>\<open>result += coeffs[i] * pow(x, i)\<close> are three operations on
  doubles, each rounded.
\<close>

function polyeval_loop :: "real list \<Rightarrow> real \<Rightarrow> nat \<Rightarrow> real \<Rightarrow> real" where
  "polyeval_loop coeffs x i result =
     (if i < length coeffs
      then polyeval_loop coeffs x (Suc i)
             (round_to_double (result + round_to_double (coeffs ! i * c_pow x i)))
      else result)"
  by pat_completeness auto
termination
  by (relation "measure (\<lambda>(coeffs, x, i, result). length coeffs - i)") auto

declare polyeval_loop.simps [simp del]

definition polyeval :: "real list \<Rightarrow> real \<Rightarrow> real" where
  "polyeval coeffs x = polyeval_loop coeffs x 0 0"

text \<open>
  The polynomial of the specification, \<open>f(x) = \<Sigma> c\<^sub>i \<cdot> x\<^sup>i\<close>, as a function on the reals.
\<close>

definition polynomial_spec :: "real list \<Rightarrow> real \<Rightarrow> real" where
  "polynomial_spec coeffs x = (\<Sum>i<length coeffs. coeffs ! i * x ^ i)"




text \<open>
  The first derivative as the specification writes it,
  \<open>f'(x) = \<Sigma> (i \<cdot> c\<^sub>i) \<cdot> x\<^sup>i\<^sup>-\<^sup>1\<close> for \<open>i \<ge> 1\<close>. The source has no such function: it
  writes the terms out for four coefficients where it builds the state.
\<close>

definition polyderiv_spec :: "real list \<Rightarrow> real \<Rightarrow> real" where
  "polyderiv_spec coeffs x = (\<Sum>i = 1..<length coeffs. of_nat i * coeffs ! i * x ^ (i - 1))"

subsection \<open>Ways the process can end\<close>

datatype crash =
    ParseError          \<comment> \<open>\<^verbatim>\<open>json::parse\<close> throws, nothing catches\<close>
  | TypeError           \<comment> \<open>a JSON accessor or conversion throws, nothing catches\<close>
  | AssertionFailure    \<comment> \<open>an \<^verbatim>\<open>assert\<close> fails and aborts\<close>
  | OutOfBounds         \<comment> \<open>an unchecked read past the end of a \<^verbatim>\<open>std::vector\<close>\<close>

definition and_then :: "crash + 'a \<Rightarrow> ('a \<Rightarrow> crash + 'b) \<Rightarrow> crash + 'b" where
  "and_then m f = (case m of Inl e \<Rightarrow> Inl e | Inr v \<Rightarrow> f v)"

subsection \<open>Coordinate transforms\<close>

definition mapToVehicleCoordinateTransform ::
    "real \<Rightarrow> real \<Rightarrow> real \<Rightarrow> real \<Rightarrow> real \<Rightarrow> real \<times> real" where
  "mapToVehicleCoordinateTransform x y px py psi =
     (let new_x_val = cos (- psi) * (x - px) - sin (- psi) * (y - py);
          new_y_val = cos (- psi) * (y - py) + sin (- psi) * (x - px)
      in (new_x_val, new_y_val))"

text \<open>
  The loop over \<open>i < x.size()\<close>. It reads \<open>y[i]\<close> unchecked, so a \<open>y\<close> shorter than
  \<open>x\<close> is an out-of-range read.
\<close>

function transform_loop ::
    "real list \<Rightarrow> real list \<Rightarrow> real \<Rightarrow> real \<Rightarrow> real \<Rightarrow> nat \<Rightarrow> real list \<Rightarrow> real list
     \<Rightarrow> crash + real list \<times> real list" where
  "transform_loop x y px py psi i new_x new_y =
     (if i < length x
      then if i < length y
           then (let old_x_val = x ! i;
                     old_y_val = y ! i;
                     (new_x_val, new_y_val) =
                        mapToVehicleCoordinateTransform old_x_val old_y_val px py psi
                 in transform_loop x y px py psi (Suc i)
                      (new_x @ [new_x_val]) (new_y @ [new_y_val]))
           else Inl OutOfBounds
      else Inr (new_x, new_y))"
  by pat_completeness auto
termination
  by (relation "measure (\<lambda>(x, y, px, py, psi, i, new_x, new_y). length x - i)") auto

declare transform_loop.simps [simp del]

definition mapToVehicleCoordinatesTransform ::
    "real list \<Rightarrow> real list \<Rightarrow> real \<Rightarrow> real \<Rightarrow> real \<Rightarrow> crash + real list \<times> real list" where
  "mapToVehicleCoordinatesTransform x y px py psi = transform_loop x y px py psi 0 [] []"

subsection \<open>polyfit\<close>

text \<open>
  Row \<open>j\<close> of the design matrix: \<open>A(j, 0) = 1\<close>, then \<open>A(j, i + 1) = A(j, i) * xvals(j)\<close>
  for \<open>i < order\<close>.
\<close>

fun fill_row :: "real \<Rightarrow> real \<Rightarrow> nat \<Rightarrow> real list" where
  "fill_row a xv 0 = [a]"
| "fill_row a xv (Suc n) = a # fill_row (a * xv) xv n"

definition design_matrix :: "real list \<Rightarrow> nat \<Rightarrow> real list list" where
  "design_matrix xvals order = map (\<lambda>xv. fill_row 1 xv order) xvals"

text \<open>
  \<^verbatim>\<open>A.householderQr().solve(yvals)\<close> belongs to the Eigen library and is a parameter
  \<open>solve\<close> here. The two \<^verbatim>\<open>assert\<close>s are branches: a failed one aborts the process.
  \<^verbatim>\<open>xvals.size() - 1\<close> is a signed Eigen index, so it is \<open>-1\<close> on the empty vector.
\<close>

type_synonym solver = "real list list \<Rightarrow> real list \<Rightarrow> real list"

definition polyfit :: "solver \<Rightarrow> real list \<Rightarrow> real list \<Rightarrow> int \<Rightarrow> crash + real list" where
  "polyfit solve xvals yvals order =
     (if length xvals \<noteq> length yvals then Inl AssertionFailure
      else if \<not> (1 \<le> order \<and> order \<le> int (length xvals) - 1) then Inl AssertionFailure
      else Inr (solve (design_matrix xvals (nat order)) yvals))"

subsection \<open>JSON values\<close>

datatype json =
    JNull
  | JBool bool
  | JNum real
  | JStr string
  | JArr "json list"
  | JObj "(string \<times> json) list"

text \<open>
  Modelled from the spec: \<^verbatim>\<open>json.hpp\<close>, the structured message codec, is not among
  the sources. The parser and the serialiser are parameters of the handler. The
  accessors the handler applies to a parsed value follow the codec's contract:
  \<^verbatim>\<open>j[i]\<close> and \<^verbatim>\<open>j[key]\<close> on a mutable value yield \<^verbatim>\<open>null\<close> for a missing element
  or key (and on \<^verbatim>\<open>null\<close> itself) and throw on a value of another kind; a
  conversion to \<^verbatim>\<open>string\<close>, \<^verbatim>\<open>double\<close> or \<^verbatim>\<open>vector<double>\<close> throws unless the
  value is a string, a number, or an array of numbers.
\<close>

fun json_at :: "json \<Rightarrow> nat \<Rightarrow> crash + json" where
  "json_at JNull idx = Inr JNull"
| "json_at (JArr xs) idx = Inr (if idx < length xs then xs ! idx else JNull)"
| "json_at (JBool b) idx = Inl TypeError"
| "json_at (JNum r) idx = Inl TypeError"
| "json_at (JStr s) idx = Inl TypeError"
| "json_at (JObj kvs) idx = Inl TypeError"

fun json_key :: "json \<Rightarrow> string \<Rightarrow> crash + json" where
  "json_key JNull k = Inr JNull"
| "json_key (JObj kvs) k = Inr (case map_of kvs k of Some v \<Rightarrow> v | None \<Rightarrow> JNull)"
| "json_key (JBool b) k = Inl TypeError"
| "json_key (JNum r) k = Inl TypeError"
| "json_key (JStr s) k = Inl TypeError"
| "json_key (JArr xs) k = Inl TypeError"

fun get_string :: "json \<Rightarrow> crash + string" where
  "get_string (JStr s) = Inr s"
| "get_string JNull = Inl TypeError"
| "get_string (JBool b) = Inl TypeError"
| "get_string (JNum r) = Inl TypeError"
| "get_string (JArr xs) = Inl TypeError"
| "get_string (JObj kvs) = Inl TypeError"

fun get_double :: "json \<Rightarrow> crash + real" where
  "get_double (JNum r) = Inr r"
| "get_double JNull = Inl TypeError"
| "get_double (JBool b) = Inl TypeError"
| "get_double (JStr s) = Inl TypeError"
| "get_double (JArr xs) = Inl TypeError"
| "get_double (JObj kvs) = Inl TypeError"

fun get_doubles :: "json list \<Rightarrow> crash + real list" where
  "get_doubles [] = Inr []"
| "get_doubles (j # js) =
     and_then (get_double j) (\<lambda>d. and_then (get_doubles js) (\<lambda>ds. Inr (d # ds)))"

fun get_vector :: "json \<Rightarrow> crash + real list" where
  "get_vector (JArr xs) = get_doubles xs"
| "get_vector JNull = Inl TypeError"
| "get_vector (JBool b) = Inl TypeError"
| "get_vector (JNum r) = Inl TypeError"
| "get_vector (JStr s) = Inl TypeError"
| "get_vector (JObj kvs) = Inl TypeError"

definition json_of_vector :: "real list \<Rightarrow> json" where
  "json_of_vector v = JArr (map JNum v)"

subsection \<open>One telemetry cycle\<close>

text \<open>
  \<open>coeffs[i]\<close> on an Eigen vector is range-checked by an assertion of the library;
  \<open>vars[i]\<close> on a \<^verbatim>\<open>std::vector\<close> is not checked at all.
\<close>

definition coeff_at :: "real list \<Rightarrow> nat \<Rightarrow> crash + real" where
  "coeff_at v i = (if i < length v then Inr (v ! i) else Inl AssertionFailure)"

definition vector_at :: "real list \<Rightarrow> nat \<Rightarrow> crash + real" where
  "vector_at v i = (if i < length v then Inr (v ! i) else Inl OutOfBounds)"

text \<open>The event name, \<^verbatim>\<open>j[0].get<string>()\<close>.\<close>

definition event_name :: "json \<Rightarrow> crash + string" where
  "event_name j = and_then (json_at j 0) get_string"

text \<open>The six fields read from \<^verbatim>\<open>j[1]\<close>, in the order of the source.\<close>

definition telemetry_field :: "json \<Rightarrow> string \<Rightarrow> crash + json" where
  "telemetry_field j k = and_then (json_at j 1) (\<lambda>d. json_key d k)"

definition decode_telemetry ::
    "json \<Rightarrow> crash + real list \<times> real list \<times> real \<times> real \<times> real \<times> real" where
  "decode_telemetry j =
     and_then (and_then (telemetry_field j ''ptsx'') get_vector) (\<lambda>ptsx.
     and_then (and_then (telemetry_field j ''ptsy'') get_vector) (\<lambda>ptsy.
     and_then (and_then (telemetry_field j ''x'') get_double) (\<lambda>px.
     and_then (and_then (telemetry_field j ''y'') get_double) (\<lambda>py.
     and_then (and_then (telemetry_field j ''psi'') get_double) (\<lambda>psi.
     and_then (and_then (telemetry_field j ''speed'') get_double) (\<lambda>v.
       Inr (ptsx, ptsy, px, py, psi, v)))))))"

text \<open>
  The cross-track error, the heading error and the state vector, as the handler
  computes them from the fitted coefficients and the speed.
\<close>

definition build_state :: "real list \<Rightarrow> real \<Rightarrow> crash + real list" where
  "build_state coeffs v =
     (let cte = polyeval coeffs 0 - 0
      in and_then (coeff_at coeffs 1) (\<lambda>c1.
         and_then (coeff_at coeffs 2) (\<lambda>c2.
         and_then (coeff_at coeffs 3) (\<lambda>c3.
           let epsi = - arctan (c1 + 2 * c2 * 0 + 3 * c3 * 0 ^ 2)
           in Inr [0, 0, 0, v, cte, epsi]))))"

text \<open>
  \<^verbatim>\<open>mpc.Solve\<close> is declared in \<^verbatim>\<open>MPC.h\<close>, which is not among the sources: it is the
  parameter \<open>mpc_Solve\<close>, a function from the state and the coefficients to the flat
  output vector and the two coordinate sequences of the predicted trajectory.
\<close>

type_synonym optimizer = "real list \<Rightarrow> real list \<Rightarrow> real list \<times> real list \<times> real list"

definition steering_response ::
    "real list \<Rightarrow> real list \<Rightarrow> real list \<Rightarrow> real list \<Rightarrow> real list \<Rightarrow> crash + json" where
  "steering_response vars x_vars y_vars ptsx_car ptsy_car =
     and_then (vector_at vars 6) (\<lambda>vars6.
     and_then (vector_at vars 7) (\<lambda>vars7.
       let steer_value = vars6 / (- 0.436332);
           throttle_value = vars7
       in Inr (JObj [(''steering_angle'', JNum steer_value),
                     (''throttle'', JNum throttle_value),
                     (''mpc_x'', json_of_vector x_vars),
                     (''mpc_y'', json_of_vector y_vars),
                     (''next_x'', json_of_vector ptsx_car),
                     (''next_y'', json_of_vector ptsy_car)])))"

definition control_cycle ::
    "solver \<Rightarrow> optimizer \<Rightarrow> real list \<Rightarrow> real list \<Rightarrow> real \<Rightarrow> real \<Rightarrow> real \<Rightarrow> real
     \<Rightarrow> crash + json" where
  "control_cycle solve mpc_Solve ptsx ptsy px py psi v =
     and_then (mapToVehicleCoordinatesTransform ptsx ptsy px py psi) (\<lambda>(ptsx_car, ptsy_car).
     and_then (polyfit solve ptsx_car ptsy_car 3) (\<lambda>coeffs.
     and_then (build_state coeffs v) (\<lambda>state.
       let (vars, x_vars, y_vars) = mpc_Solve state coeffs
       in steering_response vars x_vars y_vars ptsx_car ptsy_car)))"

subsection \<open>The message handler\<close>

text \<open>
  What the handler does to the outside, in order, and how it ends. A crash keeps the
  effects that happened before it.
\<close>

datatype effect =
    Print string      \<comment> \<open>a line on standard output\<close>
  | Sleep nat         \<comment> \<open>\<^verbatim>\<open>sleep_for\<close>, in milliseconds\<close>
  | Send string       \<comment> \<open>\<^verbatim>\<open>ws.send\<close> of a text frame\<close>

datatype status = Returned | Terminated crash

text \<open>
  \<^verbatim>\<open>string(data).substr(0, length)\<close>: the bytes at \<open>data\<close> up to the first zero byte,
  cut to \<open>length\<close>.
\<close>

definition frame_text :: "string \<Rightarrow> nat \<Rightarrow> string" where
  "frame_text data len = substr (takeWhile (\<lambda>c. c \<noteq> CHR 0x00) data) 0 len"

definition onMessage ::
    "(string \<Rightarrow> json option) \<Rightarrow> solver \<Rightarrow> optimizer \<Rightarrow> (json \<Rightarrow> string) \<Rightarrow> string \<Rightarrow> nat
     \<Rightarrow> effect list \<times> status" where
  \<open>onMessage parse solve mpc_Solve dump data len =
     (let sdata = frame_text data len
      in if 2 < length sdata \<and> sdata ! 0 = CHR ''4'' \<and> sdata ! 1 = CHR ''2''
         then (let s = hasData sdata
               in if s \<noteq> []
                  then (case parse s of
                          None \<Rightarrow> ([Print sdata], Terminated ParseError)
                        | Some j \<Rightarrow>
                           (case event_name j of
                              Inl e \<Rightarrow> ([Print sdata], Terminated e)
                            | Inr event \<Rightarrow>
                               if event = ''telemetry''
                               then (case and_then (decode_telemetry j)
                                            (\<lambda>(ptsx, ptsy, px, py, psi, v).
                                               control_cycle solve mpc_Solve ptsx ptsy px py psi v) of
                                       Inl e \<Rightarrow> ([Print sdata], Terminated e)
                                     | Inr msgJson \<Rightarrow>
                                        (let msg = ''42["steer",'' @ dump msgJson @ '']''
                                         in ([Print sdata, Print msg, Sleep 100, Send msg],
                                             Returned)))
                               else ([Print sdata], Returned)))
                  else ([Print sdata, Send ''42["manual",{}]''], Returned))
         else ([Print sdata], Returned))\<close>

subsection \<open>Sample collaborators and frames\<close>

text \<open>
  To run the handler on concrete frames the collaborators must be concrete too. The
  sample parser knows the payloads of the sample frames and rejects any other text;
  the sample solver returns the exact fit \<open>y = x\<close> of the sample waypoints; the sample
  optimizer returns a fixed output vector whose entry 6 is the calibration constant.
\<close>

definition short_frame :: string where
  \<open>short_frame =
     ''42["telemetry",{"ptsx":[1,2,3],"ptsy":[1,2,3],"x":0,"y":0,"psi":0,"speed":10}]''\<close>

definition full_frame :: string where
  \<open>full_frame =
     ''42["telemetry",{"ptsx":[1,2,3,4],"ptsy":[1,2,3,4],"x":0,"y":0,"psi":0,"speed":10}]''\<close>

definition other_frame :: string where
  \<open>other_frame = ''42["steer",{}]''\<close>

definition null_frame :: string where
  \<open>null_frame = ''42["telemetry",null]''\<close>

definition null_payload_frame :: string where
  \<open>null_payload_frame = ''42["telemetry",{"x":null}]''\<close>

definition plain_frame :: string where
  \<open>plain_frame = ''42 no data''\<close>

definition telemetry_json :: "real list \<Rightarrow> json" where
  "telemetry_json pts =
     JArr [JStr ''telemetry'',
           JObj [(''ptsx'', json_of_vector pts), (''ptsy'', json_of_vector pts),
                 (''x'', JNum 0), (''y'', JNum 0), (''psi'', JNum 0), (''speed'', JNum 10)]]"

definition sample_parse :: "string \<Rightarrow> json option" where
  "sample_parse s =
     (if s = drop 2 short_frame then Some (telemetry_json [1, 2, 3])
      else if s = drop 2 full_frame then Some (telemetry_json [1, 2, 3, 4])
      else if s = drop 2 other_frame then Some (JArr [JStr ''steer'', JObj []])
      else None)"

definition sample_solve :: solver where
  "sample_solve A y = [0, 1, 0, 0]"

definition sample_mpc :: optimizer where
  "sample_mpc state coeffs = ([0, 0, 0, 0, 0, 0, - 0.436332, 0.3], [0, 1], [0, 1])"

definition sample_dump :: "json \<Rightarrow> string" where
  \<open>sample_dump j = ''{}''\<close>

section \<open>Auxiliary facts\<close>

subsection \<open>Searching\<close>

lemma str_find_None_iff: "str_find s pat = None \<longleftrightarrow> \<not> sublist pat s"
  by (induction s) (auto simp: sublist_Cons_right)

lemma str_rfind_None_iff: "str_rfind s pat = None \<longleftrightarrow> \<not> sublist pat s"
  by (induction s) (auto simp: sublist_Cons_right split: option.splits)

lemma str_find_first_of_None_iff:
  "str_find_first_of s chars = None \<longleftrightarrow> set s \<inter> set chars = {}"
  by (induction s) auto

lemma hasData_null: "sublist ''null'' s \<Longrightarrow> hasData s = []"
proof -
  assume "sublist ''null'' s"
  then have "str_find s ''null'' \<noteq> None" by (simp add: str_find_None_iff)
  then show ?thesis by (simp add: hasData_def)
qed

lemma hasData_no_bracket: "CHR ''['' \<notin> set s \<Longrightarrow> hasData s = []"
proof -
  assume "CHR ''['' \<notin> set s"
  then have "str_find_first_of s ''['' = None"
    by (simp add: str_find_first_of_None_iff)
  then show ?thesis by (simp add: hasData_def)
qed

lemma hasData_no_closing: "\<not> sublist ''}]'' s \<Longrightarrow> hasData s = []"
proof -
  assume "\<not> sublist ''}]'' s"
  then have "str_rfind s ''}]'' = None" by (simp add: str_rfind_None_iff)
  then show ?thesis by (simp add: hasData_def split: option.splits)
qed

text \<open>
  When the last \<^verbatim>\<open>}]\<close> lies more than two positions before the first \<^verbatim>\<open>[\<close>, the
  wrapped count selects the whole rest of the string.
\<close>

lemma hasData_wrapped_count: "hasData ''42}]xx[abc'' = ''[abc''"
  by (simp add: hasData_def substr_def size_t_count_def)

subsection \<open>Rounding\<close>



lemma round_even_int [simp]: "round_even (of_int n) = n"
  by (simp add: round_even_def)

lemma round_to_double_0 [simp]: "round_to_double 0 = 0"
  by (simp add: round_to_double_def)

text \<open>Every integer of magnitude below \<open>2\<^sup>5\<^sup>3\<close> is a double.\<close>

lemma round_to_double_int:
  assumes "\<bar>n\<bar> < 2 ^ 53"
  shows "round_to_double (of_int n) = of_int n"
proof (cases "n = 0")
  case True
  then show ?thesis by simp
next
  case False
  define e where "e = \<lfloor>log 2 \<bar>real_of_int n\<bar>\<rfloor>"
  from False have "1 \<le> \<bar>n\<bar>" by simp
  then have "real_of_int 1 \<le> real_of_int \<bar>n\<bar>" by (simp only: of_int_le_iff)
  then have ge1: "1 \<le> \<bar>real_of_int n\<bar>" by simp
  from assms have "real_of_int \<bar>n\<bar> < real_of_int (2 ^ 53)" by (simp only: of_int_less_iff)
  then have lt: "\<bar>real_of_int n\<bar> < 2 ^ 53" by simp
  have "0 \<le> log 2 \<bar>real_of_int n\<bar>" using ge1 by simp
  then have e0: "0 \<le> e" by (simp add: e_def)
  have "log 2 \<bar>real_of_int n\<bar> < 53"
    using lt ge1 by (simp add: log_less_iff powr_realpow [symmetric])
  then have e52: "e \<le> 52" unfolding e_def by linarith
  have u: "ulp_exponent (of_int n) = e - 52"
    using e0 by (simp add: ulp_exponent_def e_def)
  have q: "power_int (2::real) (e - 52) = inverse (2 ^ nat (52 - e))"
    using e52 power_int_minus [of "2::real" "52 - e"] by (simp add: power_int_def)
  have "real_of_int n / power_int 2 (e - 52) = of_int (n * 2 ^ nat (52 - e))"
    by (simp add: q divide_inverse)
  then have "round_even (real_of_int n / power_int 2 (e - 52)) = n * 2 ^ nat (52 - e)"
    by (simp only: round_even_int)
  then show ?thesis
    using False by (simp add: round_to_double_def u q)
qed

lemma round_to_double_1: "round_to_double 1 = 1"
  using round_to_double_int [of 1] by simp












subsection \<open>The evaluation loop\<close>

lemma polyeval_loop_foldl:
  "polyeval_loop coeffs x i result =
     foldl (\<lambda>acc k. round_to_double (acc + round_to_double (coeffs ! k * c_pow x k)))
       result [i..<length coeffs]"
proof (induction coeffs x i result rule: polyeval_loop.induct)
  case (1 coeffs x i result)
  show ?case
  proof (cases "i < length coeffs")
    case True
    then have "polyeval_loop coeffs x i result =
        polyeval_loop coeffs x (Suc i)
          (round_to_double (result + round_to_double (coeffs ! i * c_pow x i)))"
      by (subst polyeval_loop.simps) simp
    also have "\<dots> =
        foldl (\<lambda>acc k. round_to_double (acc + round_to_double (coeffs ! k * c_pow x k)))
          (round_to_double (result + round_to_double (coeffs ! i * c_pow x i)))
          [Suc i..<length coeffs]"
      using "1.IH" [OF True] .
    also have "\<dots> =
        foldl (\<lambda>acc k. round_to_double (acc + round_to_double (coeffs ! k * c_pow x k)))
          result [i..<length coeffs]"
      using True by (simp add: upt_conv_Cons)
    finally show ?thesis .
  next
    case False
    then show ?thesis by (subst polyeval_loop.simps) simp
  qed
qed

lemma polyeval_foldl:
  "polyeval coeffs x =
     foldl (\<lambda>acc k. round_to_double (acc + round_to_double (coeffs ! k * c_pow x k)))
       0 [0..<length coeffs]"
  by (simp add: polyeval_def polyeval_loop_foldl)





lemma polynomial_spec_deriv:
  "((\<lambda>x. polynomial_spec coeffs x) has_real_derivative polyderiv_spec coeffs x) (at x)"
proof -
  have summand: "((\<lambda>x. coeffs ! k * x ^ k) has_real_derivative
        (of_nat k * coeffs ! k * x ^ (k - 1))) (at x)" for k
    by (auto intro!: derivative_eq_intros)
  have "((\<lambda>x. \<Sum>k<length coeffs. coeffs ! k * x ^ k) has_real_derivative
         (\<Sum>k<length coeffs. of_nat k * coeffs ! k * x ^ (k - 1))) (at x)"
    by (rule DERIV_sum) (rule summand)
  moreover have "(\<Sum>k<length coeffs. of_nat k * coeffs ! k * x ^ (k - 1)) =
      polyderiv_spec coeffs x"
  proof (cases "length coeffs")
    case 0
    then show ?thesis by (simp add: polyderiv_spec_def)
  next
    case (Suc n)
    have "{..<Suc n} = insert 0 {1..<Suc n}" by auto
    then show ?thesis using Suc by (simp add: polyderiv_spec_def)
  qed
  ultimately show ?thesis by (simp add: polynomial_spec_def [abs_def])
qed

lemma polyderiv_at_0: "length coeffs = 4 \<Longrightarrow> polyderiv_spec coeffs 0 = coeffs ! 1"
  by (simp add: polyderiv_spec_def sum.atLeast_Suc_lessThan)

lemma polynomial_spec_at_0: "coeffs \<noteq> [] \<Longrightarrow> polynomial_spec coeffs 0 = coeffs ! 0"
  by (cases coeffs) (simp_all add: polynomial_spec_def sum.lessThan_Suc_shift)

text \<open>
  At \<open>x = 0\<close> the evaluator returns the constant coefficient, when that is a double:
  every later term is \<open>c\<^sub>i \<cdot> 0\<close>.
\<close>

lemma polyeval_at_0:
  assumes "coeffs \<noteq> []" "round_to_double (coeffs ! 0) = coeffs ! 0"
  shows "polyeval coeffs 0 = coeffs ! 0"
proof -
  have "n \<le> length coeffs \<Longrightarrow> 0 < n \<Longrightarrow>
      foldl (\<lambda>acc k. round_to_double (acc + round_to_double (coeffs ! k * c_pow 0 k)))
        0 [0..<n] = coeffs ! 0" for n
  proof (induction n)
    case 0
    then show ?case by simp
  next
    case (Suc n)
    show ?case
    proof (cases n)
      case 0
      then show ?thesis by (simp add: c_pow_def round_to_double_1 assms(2))
    next
      case (Suc m)
      with Suc.IH Suc.prems show ?thesis by (simp add: c_pow_def assms(2))
    qed
  qed
  from this [of "length coeffs"] assms(1) show ?thesis by (simp add: polyeval_foldl)
qed

subsection \<open>The evaluator on sample vectors\<close>











subsection \<open>The transform loop\<close>

lemma transform_loop_eq:
  "i \<le> length x \<Longrightarrow> length x \<le> length y \<Longrightarrow>
   transform_loop x y px py psi i new_x new_y =
     Inr (new_x @ map (\<lambda>(a, b). fst (mapToVehicleCoordinateTransform a b px py psi))
                    (drop i (zip x y)),
          new_y @ map (\<lambda>(a, b). snd (mapToVehicleCoordinateTransform a b px py psi))
                    (drop i (zip x y)))"
proof (induction x y px py psi i new_x new_y rule: transform_loop.induct)
  case (1 x y px py psi i new_x new_y)
  show ?case
  proof (cases "i < length x")
    case True
    with "1.prems" have iy: "i < length y" by simp
    from True iy have d: "drop i (zip x y) = (x ! i, y ! i) # drop (Suc i) (zip x y)"
      by (simp add: Cons_nth_drop_Suc [symmetric])
    obtain u v where uv: "mapToVehicleCoordinateTransform (x ! i) (y ! i) px py psi = (u, v)"
      by (cases "mapToVehicleCoordinateTransform (x ! i) (y ! i) px py psi")
    from True have le: "Suc i \<le> length x" by simp
    have "transform_loop x y px py psi i new_x new_y =
          transform_loop x y px py psi (Suc i) (new_x @ [u]) (new_y @ [v])"
      using True iy uv by (subst transform_loop.simps) simp
    also have "\<dots> =
        Inr ((new_x @ [u]) @ map (\<lambda>(a, b). fst (mapToVehicleCoordinateTransform a b px py psi))
                                (drop (Suc i) (zip x y)),
             (new_y @ [v]) @ map (\<lambda>(a, b). snd (mapToVehicleCoordinateTransform a b px py psi))
                                (drop (Suc i) (zip x y)))"
      using "1.IH" [OF True iy refl refl uv [symmetric] refl le "1.prems"(2)] .
    finally show ?thesis using d uv by simp
  next
    case False
    with "1.prems" have "i = length x" by simp
    then show ?thesis by (subst transform_loop.simps) simp
  qed
qed

lemma transform_eq:
  assumes "length x \<le> length y"
  shows "mapToVehicleCoordinatesTransform x y px py psi =
     Inr (map (\<lambda>(a, b). fst (mapToVehicleCoordinateTransform a b px py psi)) (zip x y),
          map (\<lambda>(a, b). snd (mapToVehicleCoordinateTransform a b px py psi)) (zip x y))"
  using transform_loop_eq [of 0 x y px py psi "[]" "[]"] assms
  by (simp add: mapToVehicleCoordinatesTransform_def)

lemma rotate_back_x:
  "c * c + s * s = (1::real) \<Longrightarrow> c * (c * a + s * b) - s * (c * b - s * a) = a"
proof -
  assume h: "c * c + s * s = 1"
  have "c * (c * a + s * b) - s * (c * b - s * a) = (c * c + s * s) * a"
    by (simp add: algebra_simps)
  then show ?thesis by (simp add: h)
qed

lemma rotate_back_y:
  "c * c + s * s = (1::real) \<Longrightarrow> c * (c * b - s * a) + s * (c * a + s * b) = b"
proof -
  assume h: "c * c + s * s = 1"
  have "c * (c * b - s * a) + s * (c * a + s * b) = (c * c + s * s) * b"
    by (simp add: algebra_simps)
  then show ?thesis by (simp add: h)
qed

subsection \<open>The cycle and the handler\<close>

lemma polyfit_short: "length xvals < 4 \<Longrightarrow> polyfit solve xvals yvals 3 = Inl AssertionFailure"
  by (simp add: polyfit_def)

lemma control_cycle_short:
  assumes "length ptsx \<le> length ptsy" "length ptsx < 4"
  shows "control_cycle solve mpc_Solve ptsx ptsy px py psi v = Inl AssertionFailure"
  using assms
  by (simp add: control_cycle_def transform_eq and_then_def polyfit_short)

lemma steering_response_eq:
  assumes "8 \<le> length vars"
  shows "steering_response vars x_vars y_vars ptsx_car ptsy_car =
     Inr (JObj [(''steering_angle'', JNum (vars ! 6 / (- 0.436332))),
                (''throttle'', JNum (vars ! 7)),
                (''mpc_x'', json_of_vector x_vars),
                (''mpc_y'', json_of_vector y_vars),
                (''next_x'', json_of_vector ptsx_car),
                (''next_y'', json_of_vector ptsy_car)])"
  using assms by (simp add: steering_response_def vector_at_def and_then_def)

lemma control_cycle_eq:
  assumes "mapToVehicleCoordinatesTransform ptsx ptsy px py psi = Inr (ptsx_car, ptsy_car)"
    "polyfit solve ptsx_car ptsy_car 3 = Inr coeffs"
    "build_state coeffs v = Inr state"
    "mpc_Solve state coeffs = (vars, x_vars, y_vars)"
  shows "control_cycle solve mpc_Solve ptsx ptsy px py psi v =
     steering_response vars x_vars y_vars ptsx_car ptsy_car"
  using assms by (simp add: control_cycle_def and_then_def)

lemma frame_guard:
  assumes "prefix ''42'' sdata" "sdata \<noteq> ''42''"
  shows "2 < length sdata \<and> sdata ! 0 = CHR ''4'' \<and> sdata ! 1 = CHR ''2''"
proof -
  from assms(1) obtain rest where "sdata = ''42'' @ rest" by (auto simp: prefix_def)
  with assms(2) show ?thesis by (cases rest) simp_all
qed

lemma frame_guard_data:
  assumes "prefix ''42'' sdata" "hasData sdata \<noteq> []"
  shows "2 < length sdata \<and> sdata ! 0 = CHR ''4'' \<and> sdata ! 1 = CHR ''2''"
proof (rule frame_guard [OF assms(1)])
  from assms(2) have "CHR ''['' \<in> set sdata" using hasData_no_bracket by blast
  then show "sdata \<noteq> ''42''" by auto
qed

lemma frame_guard_null:
  assumes "prefix ''42'' sdata" "sublist ''null'' sdata"
  shows "2 < length sdata \<and> sdata ! 0 = CHR ''4'' \<and> sdata ! 1 = CHR ''2''"
proof (rule frame_guard [OF assms(1)])
  from assms(2) show "sdata \<noteq> ''42''" by (auto simp: sublist_Cons_right)
qed

lemma onMessage_event:
  assumes "frame_text data len = sdata" "prefix ''42'' sdata" "hasData sdata \<noteq> []"
    "parse (hasData sdata) = Some j" "event_name j = Inr event"
  shows \<open>onMessage parse solve mpc_Solve dump data len =
     (if event = ''telemetry''
      then (case and_then (decode_telemetry j)
                   (\<lambda>(ptsx, ptsy, px, py, psi, v).
                      control_cycle solve mpc_Solve ptsx ptsy px py psi v) of
              Inl e \<Rightarrow> ([Print sdata], Terminated e)
            | Inr msgJson \<Rightarrow>
                ([Print sdata, Print (''42["steer",'' @ dump msgJson @ '']''), Sleep 100,
                  Send (''42["steer",'' @ dump msgJson @ '']'')], Returned))
      else ([Print sdata], Returned))\<close>
  using frame_guard_data [OF assms(2,3)] assms(1,3,4,5)
  by (simp add: onMessage_def Let_def split: sum.split)

lemma onMessage_short:
  assumes "frame_text data len = sdata" "prefix ''42'' sdata" "hasData sdata \<noteq> []"
    "parse (hasData sdata) = Some j" "event_name j = Inr ''telemetry''"
    "decode_telemetry j = Inr (ptsx, ptsy, px, py, psi, v)"
    "length ptsx \<le> length ptsy" "length ptsx < 4"
  shows "onMessage parse solve mpc_Solve dump data len =
     ([Print sdata], Terminated AssertionFailure)"
  using onMessage_event [where parse = parse and solve = solve and mpc_Solve = mpc_Solve
      and dump = dump, OF assms(1-5)] assms(6)
    control_cycle_short [OF assms(7,8), of solve mpc_Solve px py psi v]
  by (simp add: and_then_def)

lemma onMessage_other:
  assumes "frame_text data len = sdata" "prefix ''42'' sdata" "hasData sdata \<noteq> []"
    "parse (hasData sdata) = Some j" "event_name j = Inr event" "event \<noteq> ''telemetry''"
  shows "onMessage parse solve mpc_Solve dump data len = ([Print sdata], Returned)"
  using onMessage_event [where parse = parse and solve = solve and mpc_Solve = mpc_Solve
      and dump = dump, OF assms(1-5)] assms(6)
  by simp

subsection \<open>The sample frames, evaluated\<close>

lemma frame_text_short: "frame_text short_frame (length short_frame) = short_frame"
  by (simp add: frame_text_def substr_def short_frame_def)

lemma hasData_short: "hasData short_frame = drop 2 short_frame"
  by (simp add: hasData_def substr_def size_t_count_def short_frame_def)

lemma frame_text_full: "frame_text full_frame (length full_frame) = full_frame"
  by (simp add: frame_text_def substr_def full_frame_def)

lemma hasData_full: "hasData full_frame = drop 2 full_frame"
  by (simp add: hasData_def substr_def size_t_count_def full_frame_def)

lemma frame_text_other: "frame_text other_frame (length other_frame) = other_frame"
  by (simp add: frame_text_def substr_def other_frame_def)

lemma hasData_other: "hasData other_frame = drop 2 other_frame"
  by (simp add: hasData_def substr_def size_t_count_def other_frame_def)

lemma prefix_short: "prefix ''42'' short_frame"
  by (simp add: short_frame_def)

lemma prefix_full: "prefix ''42'' full_frame"
  by (simp add: full_frame_def)

lemma prefix_other: "prefix ''42'' other_frame"
  by (simp add: other_frame_def)

lemma payload_short: "hasData short_frame \<noteq> []"
  by (simp add: hasData_short) (simp add: short_frame_def)

lemma payload_full: "hasData full_frame \<noteq> []"
  by (simp add: hasData_full) (simp add: full_frame_def)

lemma payload_other: "hasData other_frame \<noteq> []"
  by (simp add: hasData_other) (simp add: other_frame_def)

lemma parse_short: "sample_parse (hasData short_frame) = Some (telemetry_json [1, 2, 3])"
  by (simp add: hasData_short sample_parse_def)

lemma parse_full: "sample_parse (hasData full_frame) = Some (telemetry_json [1, 2, 3, 4])"
  by (simp add: hasData_full sample_parse_def) (simp add: short_frame_def full_frame_def)

lemma parse_other:
  "sample_parse (hasData other_frame) = Some (JArr [JStr ''steer'', JObj []])"
  by (simp add: hasData_other sample_parse_def)
     (simp add: short_frame_def full_frame_def other_frame_def)

lemma event_telemetry: "event_name (telemetry_json pts) = Inr ''telemetry''"
  by (simp add: event_name_def telemetry_json_def and_then_def)

lemma event_steer: "event_name (JArr [JStr ''steer'', JObj []]) = Inr ''steer''"
  by (simp add: event_name_def and_then_def)

lemma get_doubles_nums: "get_doubles (map JNum v) = Inr v"
  by (induction v) (simp_all add: and_then_def)

lemma decode_sample:
  "decode_telemetry (telemetry_json pts) = Inr (pts, pts, 0, 0, 0, 10)"
  by (simp add: decode_telemetry_def telemetry_field_def telemetry_json_def and_then_def
      json_of_vector_def get_doubles_nums)

lemma sample_transform:
  "mapToVehicleCoordinatesTransform [1, 2, 3, 4] [1, 2, 3, 4] 0 0 0 =
     Inr ([1, 2, 3, 4], [1, 2, 3, 4])"
  by (simp add: transform_eq mapToVehicleCoordinateTransform_def)

lemma sample_polyfit: "polyfit sample_solve [1, 2, 3, 4] [1, 2, 3, 4] 3 = Inr [0, 1, 0, 0]"
  by (simp add: polyfit_def sample_solve_def)

lemma sample_state: "build_state [0, 1, 0, 0] 10 = Inr [0, 0, 0, 10, 0, - arctan 1]"
  using polyeval_at_0 [of "[0, 1, 0, 0]"]
  by (simp add: build_state_def coeff_at_def and_then_def)

lemma sample_mpc_out:
  "sample_mpc [0, 0, 0, 10, 0, - arctan 1] [0, 1, 0, 0] =
     ([0, 0, 0, 0, 0, 0, - 0.436332, 0.3], [0, 1], [0, 1])"
  by (simp add: sample_mpc_def)

text \<open>
  The handler on the sample telemetry frame with four waypoints: the frame is echoed,
  the steering message is printed, the handler sleeps 100 ms and sends the message.
\<close>

lemma onMessage_full_frame:
  \<open>onMessage sample_parse sample_solve sample_mpc sample_dump full_frame (length full_frame) =
     ([Print full_frame, Print ''42["steer",{}]'', Sleep 100, Send ''42["steer",{}]''],
      Returned)\<close>
proof -
  have "control_cycle sample_solve sample_mpc [1, 2, 3, 4] [1, 2, 3, 4] 0 0 0 10 =
      steering_response [0, 0, 0, 0, 0, 0, - 0.436332, 0.3] [0, 1] [0, 1]
        [1, 2, 3, 4] [1, 2, 3, 4]"
    by (rule control_cycle_eq [where mpc_Solve = sample_mpc,
        OF sample_transform sample_polyfit sample_state sample_mpc_out])
  then show ?thesis
    using onMessage_event [where parse = sample_parse and solve = sample_solve
        and mpc_Solve = sample_mpc and dump = sample_dump,
        OF frame_text_full prefix_full payload_full parse_full event_telemetry]
    by (simp add: decode_sample and_then_def steering_response_eq sample_dump_def)
qed

section \<open>The claims\<close>

subsection \<open>Under-determined fit\<close>

text \<open>
  Claim C1, as written, fails. On the sample telemetry frame with three waypoints the
  handler echoes the frame and then ends the process on the failed assertion of
  \<^verbatim>\<open>polyfit\<close>: no error is caught or logged, nothing is sent, and the handler does
  not return to process further frames.
\<close>

theorem C1_short_fit_counterexample:
  "onMessage sample_parse sample_solve sample_mpc sample_dump short_frame (length short_frame) =
     ([Print short_frame], Terminated AssertionFailure)"
  by (rule onMessage_short [where parse = sample_parse,
        OF frame_text_short prefix_short payload_short parse_short event_telemetry
           decode_sample])
     simp_all

text \<open>
  Claim C1, amended. For a telemetry event with fewer than four waypoints in \<open>ptsx\<close>
  (and \<open>ptsy\<close> at least as long, the scalar fields numeric), the transform succeeds and
  the degree-3 fit fails on the assertion \<^verbatim>\<open>order <= xvals.size() - 1\<close> of
  \<^verbatim>\<open>polyfit\<close>, which aborts the process: the handler has echoed the frame and sends
  nothing, so no steering or throttle update is produced.
\<close>

theorem C1_short_fit_aborts:
  assumes "frame_text data len = sdata"
    and "prefix ''42'' sdata"
    and "hasData sdata \<noteq> []"
    and "parse (hasData sdata) = Some j"
    and "event_name j = Inr ''telemetry''"
    and "decode_telemetry j = Inr (ptsx, ptsy, px, py, psi, v)"
    and "length ptsx \<le> length ptsy"
    and "length ptsx < 4"
  shows "(\<exists>ptsx_car ptsy_car.
            mapToVehicleCoordinatesTransform ptsx ptsy px py psi = Inr (ptsx_car, ptsy_car) \<and>
            polyfit solve ptsx_car ptsy_car 3 = Inl AssertionFailure) \<and>
         onMessage parse solve mpc_Solve dump data len =
           ([Print sdata], Terminated AssertionFailure)"
proof
  show "\<exists>ptsx_car ptsy_car.
            mapToVehicleCoordinatesTransform ptsx ptsy px py psi = Inr (ptsx_car, ptsy_car) \<and>
            polyfit solve ptsx_car ptsy_car 3 = Inl AssertionFailure"
    using assms(7,8) by (simp add: transform_eq polyfit_short)
  show "onMessage parse solve mpc_Solve dump data len =
           ([Print sdata], Terminated AssertionFailure)"
    by (rule onMessage_short [where parse = parse, OF assms])
qed

theorem C1_short_fit_aborts_witness:
  "frame_text short_frame (length short_frame) = short_frame \<and>
   prefix ''42'' short_frame \<and>
   hasData short_frame \<noteq> [] \<and>
   sample_parse (hasData short_frame) = Some (telemetry_json [1, 2, 3]) \<and>
   event_name (telemetry_json [1, 2, 3]) = Inr ''telemetry'' \<and>
   decode_telemetry (telemetry_json [1, 2, 3]) = Inr ([1, 2, 3], [1, 2, 3], 0, 0, 0, 10) \<and>
   length [1, 2, 3 :: real] \<le> length [1, 2, 3 :: real] \<and>
   length [1, 2, 3 :: real] < 4 \<and>
   onMessage sample_parse sample_solve sample_mpc sample_dump short_frame (length short_frame) =
     ([Print short_frame], Terminated AssertionFailure)"
proof -
  have l1: "length [1, 2, 3 :: real] \<le> length [1, 2, 3 :: real]" by simp
  have l2: "length [1, 2, 3 :: real] < 4" by simp
  show ?thesis
    using C1_short_fit_aborts [where parse = sample_parse and solve = sample_solve
        and mpc_Solve = sample_mpc and dump = sample_dump,
        OF frame_text_short prefix_short payload_short parse_short event_telemetry
           decode_sample l1 l2]
      frame_text_short prefix_short payload_short parse_short event_telemetry
      decode_sample [of "[1, 2, 3]"]
    by simp
qed

subsection \<open>Coordinate transform\<close>

text \<open>
  Claim C2. For every pose \<open>(px, py, psi)\<close> and world-frame point \<open>(x, y)\<close> the
  transform returns \<open>(cos psi (x - px) + sin psi (y - py),
  - sin psi (x - px) + cos psi (y - py))\<close>, for any real heading. Applied to the
  coordinate sequences of a sequence of points (one \<open>y\<close> for every \<open>x\<close>) it transforms
  each point by this formula, in order, and returns as many points as it was given; the
  empty sequence yields the empty sequence.
\<close>

theorem C2_transform_formula:
  "mapToVehicleCoordinateTransform x y px py psi =
     (cos psi * (x - px) + sin psi * (y - py), - sin psi * (x - px) + cos psi * (y - py)) \<and>
   (length xs \<le> length ys \<longrightarrow>
      (let new_x = map (\<lambda>(a, b). cos psi * (a - px) + sin psi * (b - py)) (zip xs ys);
           new_y = map (\<lambda>(a, b). - sin psi * (a - px) + cos psi * (b - py)) (zip xs ys)
       in mapToVehicleCoordinatesTransform xs ys px py psi = Inr (new_x, new_y) \<and>
          length new_x = length xs \<and> length new_y = length xs)) \<and>
   mapToVehicleCoordinatesTransform [] ys px py psi = Inr ([], [])"
proof (intro conjI impI)
  show "mapToVehicleCoordinateTransform x y px py psi =
     (cos psi * (x - px) + sin psi * (y - py), - sin psi * (x - px) + cos psi * (y - py))"
    by (simp add: mapToVehicleCoordinateTransform_def)
  show "mapToVehicleCoordinatesTransform [] ys px py psi = Inr ([], [])"
    by (simp add: transform_eq)
  assume "length xs \<le> length ys"
  then show "let new_x = map (\<lambda>(a, b). cos psi * (a - px) + sin psi * (b - py)) (zip xs ys);
           new_y = map (\<lambda>(a, b). - sin psi * (a - px) + cos psi * (b - py)) (zip xs ys)
       in mapToVehicleCoordinatesTransform xs ys px py psi = Inr (new_x, new_y) \<and>
          length new_x = length xs \<and> length new_y = length xs"
    by (simp add: transform_eq mapToVehicleCoordinateTransform_def Let_def)
qed

theorem C2_transform_formula_witness:
  "length [1, 2 :: real] \<le> length [3, 5 :: real] \<and>
   mapToVehicleCoordinatesTransform [1, 2] [3, 5] 1 2 0 = Inr ([0, 1], [1, 3])"
  using C2_transform_formula [where xs = "[1, 2]" and ys = "[3, 5]" and px = 1 and py = 2
      and psi = 0 and x = 0 and y = 0]
  by (simp add: Let_def)

text \<open>
  Claim C7. For every pose \<open>(px, py, psi)\<close>, the transform of the vehicle's own world
  position \<open>(px, py)\<close> is the vehicle-frame point \<open>(0, 0)\<close>.
\<close>

theorem C7_own_position_origin:
  "mapToVehicleCoordinateTransform px py px py psi = (0, 0)"
  by (simp add: mapToVehicleCoordinateTransform_def)

text \<open>
  Claim C8, as written, fails. For the pose \<open>(1, 0, \<pi>/2)\<close> the world origin has the
  vehicle-frame coordinates \<open>(0, 1)\<close>; transforming these again with the heading
  \<open>-\<pi>/2\<close> gives \<open>(-1, -1)\<close> when the same position \<open>(1, 0)\<close> is used and \<open>(-1, 0)\<close>
  when the position \<open>(0, 0)\<close> is used, never the original point \<open>(0, 0)\<close>.
\<close>

theorem C8_negated_heading_counterexample:
  "mapToVehicleCoordinateTransform 0 0 1 0 (pi / 2) = (0, 1) \<and>
   mapToVehicleCoordinateTransform 0 1 1 0 (- (pi / 2)) = (- 1, - 1) \<and>
   mapToVehicleCoordinateTransform 0 1 0 0 (- (pi / 2)) = (- 1, 0)"
  by (simp add: mapToVehicleCoordinateTransform_def)

text \<open>
  Claim C8, amended. Over exact real arithmetic the transform is undone by a second
  transform with the negated heading whose position is the vehicle-frame image of the
  world origin: for every point \<open>(x, y)\<close> and pose \<open>(px, py, psi)\<close>, transforming the
  point and then transforming the result with heading \<open>-psi\<close> about the transform of
  \<open>(0, 0)\<close> restores \<open>(x, y)\<close>. In particular, for a pose at the world origin
  (\<open>px = py = 0\<close>) the transform is self-inverse under negation of the heading.
\<close>

theorem C8_inverse_transform:
  "mapToVehicleCoordinateTransform
     (fst (mapToVehicleCoordinateTransform x y px py psi))
     (snd (mapToVehicleCoordinateTransform x y px py psi))
     (fst (mapToVehicleCoordinateTransform 0 0 px py psi))
     (snd (mapToVehicleCoordinateTransform 0 0 px py psi)) (- psi) = (x, y) \<and>
   mapToVehicleCoordinateTransform
     (fst (mapToVehicleCoordinateTransform x y 0 0 psi))
     (snd (mapToVehicleCoordinateTransform x y 0 0 psi)) 0 0 (- psi) = (x, y)"
proof -
  have sc: "cos psi * cos psi + sin psi * sin psi = 1"
    using sin_cos_squared_add2 [of psi] by (simp add: power2_eq_square)
  have "mapToVehicleCoordinateTransform
     (fst (mapToVehicleCoordinateTransform x y px py psi))
     (snd (mapToVehicleCoordinateTransform x y px py psi))
     (fst (mapToVehicleCoordinateTransform 0 0 px py psi))
     (snd (mapToVehicleCoordinateTransform 0 0 px py psi)) (- psi) =
     (cos psi * (cos psi * x + sin psi * y) - sin psi * (cos psi * y - sin psi * x),
      cos psi * (cos psi * y - sin psi * x) + sin psi * (cos psi * x + sin psi * y))"
    by (simp add: mapToVehicleCoordinateTransform_def algebra_simps)
  also have "\<dots> = (x, y)"
    by (simp only: rotate_back_x [OF sc] rotate_back_y [OF sc])
  finally have general: "mapToVehicleCoordinateTransform
     (fst (mapToVehicleCoordinateTransform x y px py psi))
     (snd (mapToVehicleCoordinateTransform x y px py psi))
     (fst (mapToVehicleCoordinateTransform 0 0 px py psi))
     (snd (mapToVehicleCoordinateTransform 0 0 px py psi)) (- psi) = (x, y)" .
  have "mapToVehicleCoordinateTransform
     (fst (mapToVehicleCoordinateTransform x y 0 0 psi))
     (snd (mapToVehicleCoordinateTransform x y 0 0 psi)) 0 0 (- psi) =
     (cos psi * (cos psi * x + sin psi * y) - sin psi * (cos psi * y - sin psi * x),
      cos psi * (cos psi * y - sin psi * x) + sin psi * (cos psi * x + sin psi * y))"
    by (simp add: mapToVehicleCoordinateTransform_def algebra_simps)
  also have "\<dots> = (x, y)"
    by (simp only: rotate_back_x [OF sc] rotate_back_y [OF sc])
  finally show ?thesis using general by simp
qed

subsection \<open>Polynomial evaluation and the control state\<close>




text \<open>
  Claim C3. For every fitted coefficient vector \<open>c\<close> (four coefficients) and measured
  speed \<open>v\<close>, the state builder returns the six-element state whose first three
  components are \<open>0\<close>, whose fourth is \<open>v\<close>, whose fifth, the cross-track error, is the
  evaluator's result at \<open>0\<close> (minus \<open>0\<close>), and whose sixth, the heading error, is
  \<open>- arctan (f' 0)\<close>, where \<open>f'\<close> is the first derivative of the fitted polynomial \<open>f\<close>.
  The evaluator's result at \<open>0\<close> is the value \<open>f 0\<close> of the fitted polynomial, the
  constant coefficient being a double.
\<close>

theorem C3_state_builder:
  assumes "length c = 4"
  shows "build_state c v =
           Inr [0, 0, 0, v, polyeval c 0 - 0, - arctan (polyderiv_spec c 0)] \<and>
         polyeval c 0 - 0 = polyeval c 0 \<and>
         (round_to_double (c ! 0) = c ! 0 \<longrightarrow> polyeval c 0 = polynomial_spec c 0) \<and>
         (\<forall>x. ((\<lambda>x. polynomial_spec c x) has_real_derivative polyderiv_spec c x) (at x))"
proof -
  from assms have ne: "c \<noteq> []" by auto
  have "polyeval c 0 = polynomial_spec c 0" if "round_to_double (c ! 0) = c ! 0"
    using polyeval_at_0 [OF ne that] polynomial_spec_at_0 [OF ne] by simp
  then show ?thesis
    using assms
    by (simp add: build_state_def coeff_at_def and_then_def polyderiv_at_0
        polynomial_spec_deriv)
qed

theorem C3_state_builder_witness:
  "length [1, 2, 3, 4 :: real] = 4 \<and>
   round_to_double ([1, 2, 3, 4] ! 0) = [1, 2, 3, 4] ! 0 \<and>
   polyeval [1, 2, 3, 4] 0 = polynomial_spec [1, 2, 3, 4] 0 \<and>
   build_state [1, 2, 3, 4] 10 = Inr [0, 0, 0, 10, 1, - arctan 2]"
proof -
  have l: "length [1, 2, 3, 4 :: real] = 4" by simp
  show ?thesis
    using C3_state_builder [OF l, of 10]
    by (simp add: round_to_double_1 polynomial_spec_def lessThan_Suc polyderiv_at_0)
qed

subsection \<open>Actuation\<close>

text \<open>
  Claim C4. For every optimizer output vector (with entries 6 and 7), the steering
  command of the response is entry 6 divided by the constant \<open>-0.436332\<close> and the
  throttle command is entry 7 unchanged; an entry 6 of \<open>-0.436332\<close> gives the steering
  command \<open>1\<close>. This is the response of the cycle whenever the transform, the fit and
  the state builder succeed and the optimizer returns that vector.
\<close>

theorem C4_actuation:
  assumes "8 \<le> length vars"
  shows "steering_response vars x_vars y_vars ptsx_car ptsy_car =
           Inr (JObj [(''steering_angle'', JNum (vars ! 6 / (- 0.436332))),
                      (''throttle'', JNum (vars ! 7)),
                      (''mpc_x'', json_of_vector x_vars),
                      (''mpc_y'', json_of_vector y_vars),
                      (''next_x'', json_of_vector ptsx_car),
                      (''next_y'', json_of_vector ptsy_car)]) \<and>
         (vars ! 6 = - 0.436332 \<longrightarrow>
            steering_response vars x_vars y_vars ptsx_car ptsy_car =
              Inr (JObj [(''steering_angle'', JNum 1),
                         (''throttle'', JNum (vars ! 7)),
                         (''mpc_x'', json_of_vector x_vars),
                         (''mpc_y'', json_of_vector y_vars),
                         (''next_x'', json_of_vector ptsx_car),
                         (''next_y'', json_of_vector ptsy_car)])) \<and>
         (mapToVehicleCoordinatesTransform ptsx ptsy px py psi = Inr (ptsx_car, ptsy_car) \<and>
          polyfit solve ptsx_car ptsy_car 3 = Inr coeffs \<and>
          build_state coeffs v = Inr state \<and>
          mpc_Solve state coeffs = (vars, x_vars, y_vars) \<longrightarrow>
            control_cycle solve mpc_Solve ptsx ptsy px py psi v =
              steering_response vars x_vars y_vars ptsx_car ptsy_car)"
proof (intro conjI impI)
  show full: "steering_response vars x_vars y_vars ptsx_car ptsy_car =
           Inr (JObj [(''steering_angle'', JNum (vars ! 6 / (- 0.436332))),
                      (''throttle'', JNum (vars ! 7)),
                      (''mpc_x'', json_of_vector x_vars),
                      (''mpc_y'', json_of_vector y_vars),
                      (''next_x'', json_of_vector ptsx_car),
                      (''next_y'', json_of_vector ptsy_car)])"
    by (rule steering_response_eq [OF assms])
  show "steering_response vars x_vars y_vars ptsx_car ptsy_car =
              Inr (JObj [(''steering_angle'', JNum 1),
                         (''throttle'', JNum (vars ! 7)),
                         (''mpc_x'', json_of_vector x_vars),
                         (''mpc_y'', json_of_vector y_vars),
                         (''next_x'', json_of_vector ptsx_car),
                         (''next_y'', json_of_vector ptsy_car)])"
    if "vars ! 6 = - 0.436332"
    using full that by simp
  show "control_cycle solve mpc_Solve ptsx ptsy px py psi v =
              steering_response vars x_vars y_vars ptsx_car ptsy_car"
    if "mapToVehicleCoordinatesTransform ptsx ptsy px py psi = Inr (ptsx_car, ptsy_car) \<and>
          polyfit solve ptsx_car ptsy_car 3 = Inr coeffs \<and>
          build_state coeffs v = Inr state \<and>
          mpc_Solve state coeffs = (vars, x_vars, y_vars)"
    using that by (simp add: control_cycle_def and_then_def)
qed

theorem C4_actuation_witness:
  "8 \<le> length [0, 0, 0, 0, 0, 0, - 0.436332, 0.3 :: real] \<and>
   [0, 0, 0, 0, 0, 0, - 0.436332, 0.3 :: real] ! 6 = - 0.436332 \<and>
   mapToVehicleCoordinatesTransform [1, 2, 3, 4] [1, 2, 3, 4] 0 0 0 =
     Inr ([1, 2, 3, 4], [1, 2, 3, 4]) \<and>
   polyfit sample_solve [1, 2, 3, 4] [1, 2, 3, 4] 3 = Inr [0, 1, 0, 0] \<and>
   build_state [0, 1, 0, 0] 10 = Inr [0, 0, 0, 10, 0, - arctan 1] \<and>
   sample_mpc [0, 0, 0, 10, 0, - arctan 1] [0, 1, 0, 0] =
     ([0, 0, 0, 0, 0, 0, - 0.436332, 0.3], [0, 1], [0, 1]) \<and>
   control_cycle sample_solve sample_mpc [1, 2, 3, 4] [1, 2, 3, 4] 0 0 0 10 =
     Inr (JObj [(''steering_angle'', JNum 1),
                (''throttle'', JNum 0.3),
                (''mpc_x'', json_of_vector [0, 1]),
                (''mpc_y'', json_of_vector [0, 1]),
                (''next_x'', json_of_vector [1, 2, 3, 4]),
                (''next_y'', json_of_vector [1, 2, 3, 4])])"
proof -
  have l: "8 \<le> length [0, 0, 0, 0, 0, 0, - 0.436332, 0.3 :: real]" by simp
  show ?thesis
    using C4_actuation [OF l, where mpc_Solve = sample_mpc and solve = sample_solve
        and x_vars = "[0, 1]" and y_vars = "[0, 1]" and ptsx_car = "[1, 2, 3, 4]"
        and ptsy_car = "[1, 2, 3, 4]" and ptsx = "[1, 2, 3, 4]" and ptsy = "[1, 2, 3, 4]"
        and px = 0 and py = 0 and psi = 0 and v = 10 and coeffs = "[0, 1, 0, 0]"
        and state = "[0, 0, 0, 10, 0, - arctan 1]"]
      sample_transform sample_polyfit sample_state sample_mpc_out
    by simp
qed

subsection \<open>Routing of frames\<close>

text \<open>
  Claim C5. For every frame that, as the handler reads it, starts with \<open>42\<close> and
  contains the no-data sentinel \<open>null\<close>, the handler answers with the fixed
  manual-driving frame \<open>42["manual",{}]\<close> and returns. The answer does not depend on
  the parser, the solver, the optimizer or the serialiser: none of them is consulted.
\<close>

theorem C5_no_data_manual:
  assumes "prefix ''42'' (frame_text data len)"
    and "sublist ''null'' (frame_text data len)"
  shows \<open>onMessage parse solve mpc_Solve dump data len =
           ([Print (frame_text data len), Send ''42["manual",{}]''], Returned)\<close>
  using frame_guard_null [OF assms] hasData_null [OF assms(2)]
  by (simp add: onMessage_def)

theorem C5_no_data_manual_witness:
  \<open>prefix ''42'' (frame_text null_frame (length null_frame)) \<and>
   sublist ''null'' (frame_text null_frame (length null_frame)) \<and>
   onMessage sample_parse sample_solve sample_mpc sample_dump null_frame (length null_frame) =
     ([Print null_frame, Send ''42["manual",{}]''], Returned)\<close>
proof -
  have t: "frame_text null_frame (length null_frame) = null_frame"
    by (simp add: frame_text_def substr_def null_frame_def)
  have p: "prefix ''42'' (frame_text null_frame (length null_frame))"
    unfolding t by (simp add: null_frame_def)
  have n: "sublist ''null'' (frame_text null_frame (length null_frame))"
    unfolding t by (simp add: null_frame_def sublist_Cons_right)
  show ?thesis
    using C5_no_data_manual [OF p n, of sample_parse sample_solve sample_mpc sample_dump] p n
    by (simp add: t)
qed

text \<open>
  Claim C6, as written, fails. The sample frame \<open>42["steer",{}]\<close> decodes to an event
  named \<open>steer\<close>; the handler echoes it and returns without sending anything: neither
  the manual-driving frame nor any other.
\<close>

theorem C6_other_event_counterexample:
  \<open>onMessage sample_parse sample_solve sample_mpc sample_dump other_frame (length other_frame) =
     ([Print other_frame], Returned) \<and>
   Send ''42["manual",{}]'' \<notin>
     set (fst (onMessage sample_parse sample_solve sample_mpc sample_dump other_frame
                (length other_frame)))\<close>
proof -
  have "onMessage sample_parse sample_solve sample_mpc sample_dump other_frame
          (length other_frame) = ([Print other_frame], Returned)"
    by (rule onMessage_other [where parse = sample_parse,
          OF frame_text_other prefix_other payload_other parse_other event_steer]) simp
  then show ?thesis by simp
qed

text \<open>
  Claim C6, amended. For every frame that starts with \<open>42\<close>, carries a payload and
  decodes to an event whose name is a string other than \<open>telemetry\<close>, the handler sends
  nothing: it echoes the frame and returns, taking neither the telemetry pipeline nor
  the manual-driving branch.
\<close>

theorem C6_other_event_silent:
  assumes "frame_text data len = sdata"
    and "prefix ''42'' sdata"
    and "hasData sdata \<noteq> []"
    and "parse (hasData sdata) = Some j"
    and "event_name j = Inr event"
    and "event \<noteq> ''telemetry''"
  shows "onMessage parse solve mpc_Solve dump data len = ([Print sdata], Returned)"
  by (rule onMessage_other [where parse = parse, OF assms])

theorem C6_other_event_silent_witness:
  "frame_text other_frame (length other_frame) = other_frame \<and>
   prefix ''42'' other_frame \<and>
   hasData other_frame \<noteq> [] \<and>
   sample_parse (hasData other_frame) = Some (JArr [JStr ''steer'', JObj []]) \<and>
   event_name (JArr [JStr ''steer'', JObj []]) = Inr ''steer'' \<and>
   ''steer'' \<noteq> ''telemetry'' \<and>
   onMessage sample_parse sample_solve sample_mpc sample_dump other_frame (length other_frame) =
     ([Print other_frame], Returned)"
proof -
  have ne: "''steer'' \<noteq> ''telemetry''" by simp
  show ?thesis
    using C6_other_event_silent [where parse = sample_parse and solve = sample_solve
        and mpc_Solve = sample_mpc and dump = sample_dump,
        OF frame_text_other prefix_other payload_other parse_other event_steer ne]
      frame_text_other prefix_other payload_other parse_other event_steer
    by simp
qed

text \<open>
  Claim C10. The no-data check comes before the extraction of the payload: for every
  frame that contains \<open>null\<close> anywhere, \<open>hasData\<close> returns the empty string, also when
  the frame holds a well-formed bracketed payload; and for every frame without a \<open>[\<close>
  or without a \<open>}]\<close>, \<open>hasData\<close> returns the empty string as well.
\<close>

theorem C10_hasData_priority:
  "(sublist ''null'' s \<longrightarrow> hasData s = []) \<and>
   (CHR ''['' \<notin> set s \<or> \<not> sublist ''}]'' s \<longrightarrow> hasData s = [])"
  using hasData_null [of s] hasData_no_bracket [of s] hasData_no_closing [of s]
  by blast

theorem C10_hasData_priority_witness:
  \<open>sublist ''null'' null_payload_frame \<and>
   CHR ''['' \<in> set null_payload_frame \<and>
   sublist ''}]'' null_payload_frame \<and>
   hasData null_payload_frame = [] \<and>
   CHR ''['' \<notin> set plain_frame \<and>
   hasData plain_frame = [] \<and>
   \<not> sublist ''}]'' ''42["a"]'' \<and>
   hasData ''42["a"]'' = []\<close>
proof -
  have a: "sublist ''null'' null_payload_frame"
    by (simp add: null_payload_frame_def sublist_Cons_right)
  have a1: "CHR ''['' \<in> set null_payload_frame"
    by (simp add: null_payload_frame_def)
  have a2: "sublist ''}]'' null_payload_frame"
    by (simp add: null_payload_frame_def sublist_Cons_right)
  have b: "CHR ''['' \<notin> set plain_frame"
    by (simp add: plain_frame_def)
  have c: \<open>\<not> sublist ''}]'' ''42["a"]''\<close>
    by (simp add: sublist_Cons_right)
  show ?thesis
    using C10_hasData_priority [of null_payload_frame] C10_hasData_priority [of plain_frame]
      C10_hasData_priority [of \<open>''42["a"]''\<close>] a a1 a2 b c
    by blast
qed

end
